theory Spec2Isabelle
  imports Complex_Main
begin

section \<open>Values exchanged with the queue library\<close>

text \<open>
  The repository enqueues and processes e-mail jobs through a third-party queue library.
  Its own code builds job options, calls the library's \<open>add\<close>, and supplies the job
  processor. This development embeds that code: \<open>jobs/emailJob.js\<close> and the processor of
  \<open>workers/emailWorker.js\<close>. The library itself is a parameter of the model.

  A JavaScript number that the producers handle is either an integral number of
  milliseconds or \<open>NaN\<close>: subtracting two \<open>Date\<close> objects gives the difference of their
  time values, and \<open>NaN\<close> when one of them is an invalid date. Time values are integers of
  magnitude at most \<open>maxTimeValue\<close>. Their difference is computed in binary64: its sign is
  always exact, and its value is exact whenever its magnitude stays below 2^53, which
  holds for a future time whenever the clock reading is not before the epoch. \<open>js_sub\<close>
  is the exact difference, so statements about its value carry that range.
\<close>

datatype jsnum = Num int | NaN

text \<open>The largest time value a \<open>Date\<close> can hold, in milliseconds from the epoch.\<close>

definition maxTimeValue :: int where
  "maxTimeValue = 8640000000000000"

fun js_sub :: "jsnum \<Rightarrow> jsnum \<Rightarrow> jsnum" where
  "js_sub (Num a) (Num b) = Num (a - b)"
| "js_sub _ _ = NaN"

text \<open>Every comparison with \<open>NaN\<close> is false.\<close>

fun js_le :: "jsnum \<Rightarrow> jsnum \<Rightarrow> bool" where
  "js_le (Num a) (Num b) = (a \<le> b)"
| "js_le _ _ = False"

fun js_gt :: "jsnum \<Rightarrow> jsnum \<Rightarrow> bool" where
  "js_gt (Num a) (Num b) = (a > b)"
| "js_gt _ _ = False"

text \<open>A thrown \<open>Error\<close> (or a rejected promise) with its message.\<close>

datatype error = Error string

text \<open>
  The job payload, as far as this code reads it: \<open>to\<close> and \<open>urgent\<close>. A field that is
  absent (\<open>undefined\<close>) is \<open>None\<close>; jobs of other types carry neither.
\<close>

record email_data =
  to :: "string option"
  urgent :: "bool option"

fun truthy :: "bool option \<Rightarrow> bool" where
  "truthy (Some b) = b"
| "truthy None = False"

record backoff_opts =
  backoff_type :: string
  backoff_delay :: int

record repeat_opts =
  cron :: string

text \<open>The options object passed to \<open>add\<close>; a key that is absent or \<open>null\<close> is \<open>None\<close>.\<close>

record job_options =
  delay :: "jsnum option"
  attempts :: "nat option"
  backoff :: "backoff_opts option"
  priority :: "int option"
  repeat :: "repeat_opts option"
  removeOnComplete :: "nat option"
  removeOnFail :: "nat option"

text \<open>The library's job object, with the fields this code reads.\<close>

record job =
  job_id :: string
  name :: string
  data :: email_data
  opts :: job_options
  attemptsMade :: nat

text \<open>
  Observable effects besides the result, in the order the code performs them: one
  constructor for each \<open>console.log\<close> line, carrying the values interpolated into it, and
  one for the timer the processor waits on.
\<close>

datatype event =
    EmailJobAdded string string
  | WillBeProcessedIn jsnum
  | RecurringScheduled string
  | ProcessingJob string
  | JobType string
  | SendingEmailTo "string option"
  | UrgentFlag bool
  | Attempt nat "nat option"
  | Waited nat
  | EmailSent "string option"
  | UnknownTypeProcessed string

text \<open>
  The producers run against a queue held by the library (of any type \<open>'q\<close>) and the
  console. \<open>emailQueue.add(name, data, opts)\<close> is the library's: it takes the queue to a
  new queue and either resolves with a job or rejects.
\<close>

record 'q world =
  queue :: 'q
  console :: "event list"

type_synonym 'q queue_add =
  "string \<Rightarrow> email_data \<Rightarrow> job_options \<Rightarrow> 'q \<Rightarrow> (error + job) \<times> 'q"

section \<open>Producers: \<open>jobs/emailJob.js\<close>\<close>

definition jobOptions :: "jsnum \<Rightarrow> repeat_opts option \<Rightarrow> job_options" where
  "jobOptions dly rep =
     \<lparr>delay = Some dly,
      attempts = Some 3,
      backoff = Some \<lparr>backoff_type = ''exponential'', backoff_delay = 2000\<rparr>,
      priority = Some 1,
      repeat = rep,
      removeOnComplete = Some 10,
      removeOnFail = Some 5\<rparr>"

definition addEmailJob ::
  "'q queue_add \<Rightarrow> string \<Rightarrow> jsnum \<Rightarrow> repeat_opts option \<Rightarrow> 'q world
     \<Rightarrow> (error + job) \<times> 'q world" where
  "addEmailJob add recipient_addr dly rep w =
     (case add ''sendEmail'' \<lparr>to = Some recipient_addr, urgent = None\<rparr>
             (jobOptions dly rep) (queue w) of
        (Inl e, q') \<Rightarrow> (Inl e, w\<lparr>queue := q'\<rparr>)
      | (Inr j, q') \<Rightarrow>
          (Inr j,
           \<lparr>queue = q',
            console = console w
              @ [EmailJobAdded (job_id j) recipient_addr]
              @ (if js_gt dly (Num 0) then [WillBeProcessedIn dly] else [])
              @ (case rep of Some r \<Rightarrow> [RecurringScheduled (cron r)] | None \<Rightarrow> [])\<rparr>))"

definition addUrgentEmailJob ::
  "'q queue_add \<Rightarrow> string \<Rightarrow> 'q world \<Rightarrow> (error + job) \<times> 'q world" where
  "addUrgentEmailJob add recipient_addr w =
     (case add ''sendEmail'' \<lparr>to = Some recipient_addr, urgent = Some True\<rparr>
             \<lparr>delay = Some (Num 0), attempts = Some 5, backoff = None,
              priority = Some 10, repeat = None,
              removeOnComplete = None, removeOnFail = None\<rparr> (queue w) of
        (r, q') \<Rightarrow> (r, w\<lparr>queue := q'\<rparr>))"

text \<open>
  \<open>scheduleEmailAt\<close> reads the clock once (\<open>now\<close>); \<open>scheduleTime\<close> is the time value of
  \<open>new Date(scheduleTime)\<close>, \<open>NaN\<close> for an invalid date.
\<close>

definition scheduleEmailAt ::
  "'q queue_add \<Rightarrow> int \<Rightarrow> string \<Rightarrow> jsnum \<Rightarrow> 'q world \<Rightarrow> (error + job) \<times> 'q world" where
  "scheduleEmailAt add now recipient_addr scheduleTime w =
     (let dly = js_sub scheduleTime (Num now) in
      if js_le dly (Num 0)
      then (Inl (Error ''Schedule time must be in the future''), w)
      else addEmailJob add recipient_addr dly None w)"

text \<open>
  A queue to run the producers on at concrete inputs: it accepts every call, keeps the
  calls in order, and numbers the jobs from 1. It stands for no particular library.
\<close>

definition recording_add :: "(string \<times> email_data \<times> job_options) list queue_add" where
  "recording_add n d opt q =
     (Inr \<lparr>job_id = replicate (Suc (length q)) CHR ''i'', name = n, data = d, opts = opt,
           attemptsMade = 0\<rparr>,
      q @ [(n, d, opt)])"

section \<open>The basic worker's processor: \<open>workers/emailWorker.js\<close>\<close>

text \<open>
  What the processor reads from outside, in the order it reads it: the first
  \<open>Math.random()\<close>, the clock as \<open>new Date().toISOString()\<close> and as \<open>Date.now()\<close>, and the
  second \<open>Math.random()\<close> as \<open>toString(36)\<close> renders it. A binary64 number is a rational,
  and the only use of the first draw is one comparison, so the draw is a \<open>rat\<close>.
\<close>

record env =
  random1 :: rat
  clock_iso :: string
  clock_ms :: int
  random2_base36 :: string

text \<open>The literal \<open>0.2\<close> denotes the binary64 number nearest to 1/5, which is this one.\<close>

definition failure_threshold :: rat where
  "failure_threshold = 3602879701896397 / 18014398509481984"

definition processingTime :: "email_data \<Rightarrow> nat" where
  "processingTime d = (if truthy (urgent d) then 500 else 1000)"

text \<open>Decimal rendering of an integer, as a template literal renders \<open>Date.now()\<close>.\<close>

definition digit_char :: "nat \<Rightarrow> char" where
  "digit_char d = ''0123456789'' ! d"

fun digits10 :: "nat \<Rightarrow> string" where
  "digits10 n = (if n < 10 then [digit_char n] else digits10 (n div 10) @ [digit_char (n mod 10)])"

definition toString_int :: "int \<Rightarrow> string" where
  "toString_int i = (if i < 0 then CHR ''-'' # digits10 (nat (- i)) else digits10 (nat i))"

text \<open>\<open>s.substr(start, len)\<close> for \<open>start \<ge> 0\<close>: empty when \<open>start\<close> is past the end.\<close>

definition substr :: "nat \<Rightarrow> nat \<Rightarrow> string \<Rightarrow> string" where
  "substr start len s = take len (drop start s)"

record email_result =
  sentAt :: string
  recipient :: "string option"
  messageId :: string

definition processEmailJob :: "env \<Rightarrow> job \<Rightarrow> event list \<times> (error + email_result)" where
  "processEmailJob e j =
     (let recipient_addr = to (data j);
          is_urgent = truthy (urgent (data j));
          before =
            [ProcessingJob (job_id j),
             JobType (name j),
             SendingEmailTo recipient_addr,
             UrgentFlag is_urgent,
             Attempt (attemptsMade j + 1) (attempts (opts j)),
             Waited (processingTime (data j))]
      in if random1 e < failure_threshold
         then (before, Inl (Error ''Simulated email service failure''))
         else
           (before @
              [if name j = ''sendEmail'' then EmailSent recipient_addr
               else UnknownTypeProcessed (name j)],
            Inr \<lparr>sentAt = clock_iso e,
                 recipient = recipient_addr,
                 messageId = ''msg_'' @ toString_int (clock_ms e) @ ''_''
                               @ substr 2 9 (random2_base36 e)\<rparr>))"

section \<open>Properties of the producers\<close>

lemma addEmailJob_result:
  "fst (addEmailJob add a dly rep w)
     = fst (add ''sendEmail'' \<lparr>to = Some a, urgent = None\<rparr> (jobOptions dly rep) (queue w))"
  by (simp add: addEmailJob_def split: prod.split sum.split)

lemma addEmailJob_queue:
  "queue (snd (addEmailJob add a dly rep w))
     = snd (add ''sendEmail'' \<lparr>to = Some a, urgent = None\<rparr> (jobOptions dly rep) (queue w))"
  by (simp add: addEmailJob_def split: prod.split sum.split)

lemma jobOptions_delay: "delay (jobOptions dly rep) = Some dly"
  by (simp add: jobOptions_def)

text \<open>
  For a valid schedule time the guard does what its message says. When the time is not
  strictly later than the clock reading, \<open>scheduleEmailAt\<close> throws and leaves the queue
  and the console as they were. When it is strictly later (the clock not before the
  epoch), \<open>scheduleEmailAt\<close> is one call of \<open>add\<close> for a \<open>sendEmail\<close> job to that recipient
  whose \<open>delay\<close> option is the schedule time minus the clock reading; its outcome and the
  new queue are those of that call.
\<close>

lemma scheduleEmailAt_valid_time:
  "(t \<le> now \<longrightarrow>
      scheduleEmailAt add now a (Num t) w
        = (Inl (Error ''Schedule time must be in the future''), w))
   \<and> (now < t \<and> 0 \<le> now \<and> t \<le> maxTimeValue \<longrightarrow>
      scheduleEmailAt add now a (Num t) w = addEmailJob add a (Num (t - now)) None w
      \<and> fst (scheduleEmailAt add now a (Num t) w)
          = fst (add ''sendEmail'' \<lparr>to = Some a, urgent = None\<rparr>
                   (jobOptions (Num (t - now)) None) (queue w))
      \<and> queue (snd (scheduleEmailAt add now a (Num t) w))
          = snd (add ''sendEmail'' \<lparr>to = Some a, urgent = None\<rparr>
                   (jobOptions (Num (t - now)) None) (queue w))
      \<and> delay (jobOptions (Num (t - now)) None) = Some (Num (t - now)))"
proof (intro conjI impI)
  assume "t \<le> now"
  then show "scheduleEmailAt add now a (Num t) w
               = (Inl (Error ''Schedule time must be in the future''), w)"
    by (simp add: scheduleEmailAt_def)
next
  assume "now < t \<and> 0 \<le> now \<and> t \<le> maxTimeValue"
  then have future: "now < t" by simp
  then show eq: "scheduleEmailAt add now a (Num t) w
                   = addEmailJob add a (Num (t - now)) None w"
    by (simp add: scheduleEmailAt_def)
  show "fst (scheduleEmailAt add now a (Num t) w)
          = fst (add ''sendEmail'' \<lparr>to = Some a, urgent = None\<rparr>
                   (jobOptions (Num (t - now)) None) (queue w))"
    by (simp only: eq addEmailJob_result)
  show "queue (snd (scheduleEmailAt add now a (Num t) w))
          = snd (add ''sendEmail'' \<lparr>to = Some a, urgent = None\<rparr>
                   (jobOptions (Num (t - now)) None) (queue w))"
    by (simp only: eq addEmailJob_queue)
  show "delay (jobOptions (Num (t - now)) None) = Some (Num (t - now))"
    by (rule jobOptions_delay)
qed

lemma scheduleEmailAt_valid_time_example:
  "(1000::int) \<le> 1000
   \<and> scheduleEmailAt recording_add 1000 ''user@example.com'' (Num 1000)
         \<lparr>queue = [], console = []\<rparr>
       = (Inl (Error ''Schedule time must be in the future''), \<lparr>queue = [], console = []\<rparr>)
   \<and> ((1000::int) < 6000 \<and> (0::int) \<le> 1000 \<and> 6000 \<le> maxTimeValue)
   \<and> queue (snd (scheduleEmailAt recording_add 1000 ''user@example.com'' (Num 6000)
         \<lparr>queue = [], console = []\<rparr>))
       = [(''sendEmail'', \<lparr>to = Some ''user@example.com'', urgent = None\<rparr>,
           jobOptions (Num 5000) None)]
   \<and> delay (jobOptions (Num 5000) None) = Some (Num 5000)"
  using
    scheduleEmailAt_valid_time [where t = 1000 and now = 1000 and add = recording_add
      and a = "''user@example.com''" and w = "\<lparr>queue = [], console = []\<rparr>"]
    scheduleEmailAt_valid_time [where t = 6000 and now = 1000 and add = recording_add
      and a = "''user@example.com''" and w = "\<lparr>queue = [], console = []\<rparr>"]
  by (simp add: recording_add_def addEmailJob_def maxTimeValue_def)

text \<open>
  For an invalid date the difference is \<open>NaN\<close>, the guard \<open>delay <= 0\<close> is false, and
  the job is submitted with a \<open>NaN\<close> delay, whatever the library's \<open>add\<close> is.
\<close>

lemma scheduleEmailAt_invalid_date:
  "scheduleEmailAt add now a NaN w = addEmailJob add a NaN None w"
  by (simp add: scheduleEmailAt_def)

text \<open>
  C9. \<open>scheduleEmailAt\<close> is to throw \<open>Schedule time must be in the future\<close>, adding no
  job, for every schedule time that is not strictly later than the clock reading. The
  code misses one case. An unparseable schedule time has the time value \<open>NaN\<close>, which is
  not later than any clock reading; there the function does not throw: on an empty
  queue that accepts every call it resolves with a job, and the queue holds one
  \<open>sendEmail\<close> job whose \<open>delay\<close> option is \<open>NaN\<close>.
\<close>

theorem scheduleEmailAt_invalid_date_not_rejected:
  "\<not> js_gt NaN (Num 1000)
   \<and> scheduleEmailAt recording_add 1000 ''user@example.com'' NaN
         \<lparr>queue = [], console = []\<rparr>
       = (Inr \<lparr>job_id = ''i'', name = ''sendEmail'',
                data = \<lparr>to = Some ''user@example.com'', urgent = None\<rparr>,
                opts = jobOptions NaN None, attemptsMade = 0\<rparr>,
          \<lparr>queue = [(''sendEmail'', \<lparr>to = Some ''user@example.com'', urgent = None\<rparr>,
                     jobOptions NaN None)],
           console = [EmailJobAdded ''i'' ''user@example.com'']\<rparr>)
   \<and> fst (scheduleEmailAt recording_add 1000 ''user@example.com'' NaN
           \<lparr>queue = [], console = []\<rparr>)
       \<noteq> Inl (Error ''Schedule time must be in the future'')
   \<and> delay (jobOptions NaN None) = Some NaN"
  by (simp add: scheduleEmailAt_invalid_date addEmailJob_def recording_add_def
        jobOptions_delay)

section \<open>Properties of the processor\<close>

lemma processEmailJob_success:
  "\<not> random1 e < failure_threshold \<Longrightarrow>
   snd (processEmailJob e j)
     = Inr \<lparr>sentAt = clock_iso e, recipient = to (data j),
            messageId = ''msg_'' @ toString_int (clock_ms e) @ ''_''
                          @ substr 2 9 (random2_base36 e)\<rparr>"
  by (simp add: processEmailJob_def Let_def)

text \<open>
  C10. A job whose name is not \<open>sendEmail\<close> is not rejected by the basic worker's
  processor: when the random failure does not fire, the processor takes the default
  branch of the switch (its last console line reports an unknown job type) and returns
  a result with \<open>sentAt\<close>, \<open>recipient\<close> and \<open>messageId\<close>, the same result a \<open>sendEmail\<close>
  job with that payload gets.
\<close>

theorem processEmailJob_unknown_type_completes:
  assumes "name j \<noteq> ''sendEmail''"
    and "\<not> random1 e < failure_threshold"
  shows "snd (processEmailJob e j)
           = Inr \<lparr>sentAt = clock_iso e, recipient = to (data j),
                  messageId = ''msg_'' @ toString_int (clock_ms e) @ ''_''
                                @ substr 2 9 (random2_base36 e)\<rparr>
         \<and> last (fst (processEmailJob e j)) = UnknownTypeProcessed (name j)
         \<and> snd (processEmailJob e j) = snd (processEmailJob e (j\<lparr>name := ''sendEmail''\<rparr>))"
proof (intro conjI)
  from assms(2) show "snd (processEmailJob e j)
           = Inr \<lparr>sentAt = clock_iso e, recipient = to (data j),
                  messageId = ''msg_'' @ toString_int (clock_ms e) @ ''_''
                                @ substr 2 9 (random2_base36 e)\<rparr>"
    by (rule processEmailJob_success)
  from assms show "last (fst (processEmailJob e j)) = UnknownTypeProcessed (name j)"
    by (simp add: processEmailJob_def Let_def)
  from assms(2) show "snd (processEmailJob e j)
                        = snd (processEmailJob e (j\<lparr>name := ''sendEmail''\<rparr>))"
    by (simp add: processEmailJob_success)
qed

theorem processEmailJob_unknown_type_completes_witness:
  "name \<lparr>job_id = ''7'', name = ''batchEmail'', data = \<lparr>to = None, urgent = None\<rparr>,
         opts = \<lparr>delay = None, attempts = Some 2, backoff = None, priority = Some 5,
                 repeat = None, removeOnComplete = None, removeOnFail = None\<rparr>,
         attemptsMade = 0\<rparr> \<noteq> ''sendEmail''
   \<and> \<not> random1 \<lparr>random1 = 1 / 2, clock_iso = ''2025-01-01T00:00:00.000Z'',
                  clock_ms = 1735689600000, random2_base36 = ''0.4fzyo82mvyr''\<rparr>
         < failure_threshold
   \<and> snd (processEmailJob
         \<lparr>random1 = 1 / 2, clock_iso = ''2025-01-01T00:00:00.000Z'',
          clock_ms = 1735689600000, random2_base36 = ''0.4fzyo82mvyr''\<rparr>
         \<lparr>job_id = ''7'', name = ''batchEmail'', data = \<lparr>to = None, urgent = None\<rparr>,
          opts = \<lparr>delay = None, attempts = Some 2, backoff = None, priority = Some 5,
                  repeat = None, removeOnComplete = None, removeOnFail = None\<rparr>,
          attemptsMade = 0\<rparr>)
       = Inr \<lparr>sentAt = ''2025-01-01T00:00:00.000Z'', recipient = None,
              messageId = ''msg_1735689600000_4fzyo82mv''\<rparr>"
proof -
  let ?e = "\<lparr>random1 = 1 / 2, clock_iso = ''2025-01-01T00:00:00.000Z'',
             clock_ms = 1735689600000, random2_base36 = ''0.4fzyo82mvyr''\<rparr>"
  let ?j = "\<lparr>job_id = ''7'', name = ''batchEmail'', data = \<lparr>to = None, urgent = None\<rparr>,
             opts = \<lparr>delay = None, attempts = Some 2, backoff = None, priority = Some 5,
                     repeat = None, removeOnComplete = None, removeOnFail = None\<rparr>,
             attemptsMade = 0\<rparr>"
  have n: "name ?j \<noteq> ''sendEmail''" by simp
  have r: "\<not> random1 ?e < failure_threshold" by (simp add: failure_threshold_def)
  have d: "toString_int 1735689600000 = ''1735689600000''"
    by (simp add: toString_int_def digit_char_def)
  from processEmailJob_unknown_type_completes [OF n r] n r d
  show ?thesis by (simp add: substr_def)
qed

end
